theory Spec2Isabelle
  imports Main
begin

section \<open>Data model (models.py, gromacs.py)\<close>

text \<open>
  \<^verbatim>\<open>SimulationStep\<close> is a string-valued enumeration with six members;
  \<open>step_value\<close> is the member's \<^verbatim>\<open>.value\<close>.
\<close>

datatype SimulationStep =
    SYSTEM_PREPARATION
  | MINIMIZATION
  | NVT_EQUILIBRATION
  | NPT_EQUILIBRATION
  | PRODUCTION
  | ANALYSIS

fun step_value :: "SimulationStep \<Rightarrow> string" where
  "step_value SYSTEM_PREPARATION = ''system_preparation''"
| "step_value MINIMIZATION = ''minimization''"
| "step_value NVT_EQUILIBRATION = ''nvt_equilibration''"
| "step_value NPT_EQUILIBRATION = ''npt_equilibration''"
| "step_value PRODUCTION = ''production''"
| "step_value ANALYSIS = ''analysis''"

text \<open>
  \<^verbatim>\<open>SimulationStatus\<close>: the current step, the list of completed steps (a Python list:
  order and duplicates are kept) and the dictionary from step to error text. The two
  time stamps are never written by the code modelled here and are left out.
\<close>

record SimulationStatus =
  current_step :: "SimulationStep option"
  completed_steps :: "SimulationStep list"
  errors :: "SimulationStep \<rightharpoonup> string"

definition new_status :: SimulationStatus where
  "new_status = \<lparr>current_step = None, completed_steps = [], errors = Map.empty\<rparr>"

text \<open>\<^verbatim>\<open>Context\<close> (its \<^verbatim>\<open>log\<close> list is kept in the world below) and \<^verbatim>\<open>GromacsCmdResult\<close>.\<close>

record Context =
  working_dir :: string
  gmx_path :: string

record GromacsCmdResult =
  stdout :: string
  stderr :: string
  return_code :: int
  command :: string
  success :: bool

text \<open>
  The exceptions that travel through the modelled code: the \<^verbatim>\<open>SimulationError\<close> of
  simulation.py and the \<^verbatim>\<open>AttributeError\<close> that reading an attribute of \<^verbatim>\<open>None\<close>
  raises. \<open>str_of\<close> is Python's \<^verbatim>\<open>str(e)\<close>.
\<close>

datatype exn = SimulationError string | AttributeError string

fun str_of :: "exn \<Rightarrow> string" where
  "str_of (SimulationError m) = m"
| "str_of (AttributeError m) = m"

section \<open>The world the workflow acts on\<close>

text \<open>
  The working directory holds regular files addressed by name (\<open>files\<close>, name to
  bytes) and the directories \<^verbatim>\<open>checkpoints/<name>/\<close> (\<open>checkpoints\<close>; \<open>None\<close> when the
  directory does not exist). Three traces record what the code did: \<open>gw_calls\<close> every
  entry into \<^verbatim>\<open>run_gromacs_command\<close>, \<open>spawned\<close> the argument vector of every process
  creation it attempted, \<open>ctx_log\<close> the entries appended to \<^verbatim>\<open>ctx.log\<close>. \<open>registry\<close>
  is the sequence of status records written through the \<^verbatim>\<open>WorkflowManager\<close>.
  File operations are assumed not to fail for reasons outside this model
  (permissions, a directory where a file is expected).
\<close>

type_synonym dir = "string \<rightharpoonup> string"

record world =
  status :: SimulationStatus
  files :: dir
  checkpoints :: "string \<rightharpoonup> dir"
  gw_calls :: "(string \<times> string list) list"
  spawned :: "string list list"
  ctx_log :: "(string \<times> int \<times> string \<times> string) list"
  registry :: "SimulationStatus list"

text \<open>
  What lies outside the program: the outcome of creating a process and waiting for it
  (\<open>spawn\<close>, given the argument vector, the directory, the standard input and the
  working directory's files), what the \<open>k\<close>-th poll of a log file reads (\<open>tail\<close>:
  \<open>None\<close> when the file does not exist, else the result of \<^verbatim>\<open>readlines()\<close>), how the
  interpreter formats an enumeration member inside an f-string (\<open>fmt_step\<close>), the
  text of the parameter file of a step (\<open>render_mdp\<close>) and the path of the working
  directory.
\<close>

datatype proc_outcome =
    SpawnError string
  | Exited int string string dir

record env =
  spawn :: "string list \<Rightarrow> string \<Rightarrow> string option \<Rightarrow> dir \<Rightarrow> proc_outcome"
  tail :: "nat \<Rightarrow> string \<Rightarrow> string list option"
  fmt_step :: "SimulationStep \<Rightarrow> string"
  render_mdp :: "SimulationStep \<Rightarrow> string"
  work_dir :: string

section \<open>Process invocation gateway (gromacs.py)\<close>

fun join_sp :: "string list \<Rightarrow> string" where
  "join_sp [] = []"
| "join_sp [x] = x"
| "join_sp (x # y # ys) = x @ '' '' @ join_sp (y # ys)"

definition none_has_no_gmx_path :: string where
  "none_has_no_gmx_path =
     [CHR 0x27] @ ''NoneType'' @ [CHR 0x27] @ '' object has no attribute '' @
     [CHR 0x27] @ ''gmx_path'' @ [CHR 0x27]"

text \<open>
  \<^verbatim>\<open>run_gromacs_command\<close>. The attribute \<^verbatim>\<open>ctx.gmx_path\<close> is read before the
  \<^verbatim>\<open>try\<close>, so a \<^verbatim>\<open>None\<close> context raises; everything from the process creation on is
  inside the \<^verbatim>\<open>try\<close>, whose handler returns the result with return code \<open>-1\<close>.
\<close>

text \<open>Lines 41 to 48: the command line, decided by comparing the configured path with \<^verbatim>\<open>"gmx"\<close>.\<close>

definition full_cmd :: "Context \<Rightarrow> string \<Rightarrow> string list \<Rightarrow> string list" where
  "full_cmd c cmd args =
     (if gmx_path c = ''gmx'' then [gmx_path c, cmd] @ args else [cmd] @ args)"

definition run_gromacs_command ::
  "env \<Rightarrow> Context option \<Rightarrow> string \<Rightarrow> string list \<Rightarrow> string option \<Rightarrow> world
     \<Rightarrow> (exn + GromacsCmdResult) \<times> world" where
  "run_gromacs_command e ctx cmd args input_data w =
     (let w0 = w\<lparr>gw_calls := gw_calls w @ [(cmd, args)]\<rparr> in
      case ctx of
        None \<Rightarrow> (Inl (AttributeError none_has_no_gmx_path), w0)
      | Some c \<Rightarrow>
          (let fc = full_cmd c cmd args;
               w1 = w0\<lparr>spawned := spawned w0 @ [fc]\<rparr>
           in case spawn e fc (working_dir c) input_data (files w1) of
                SpawnError error_msg \<Rightarrow>
                  (Inr \<lparr>stdout = '''', stderr = error_msg, return_code = - 1,
                        command = join_sp fc, success = False\<rparr>, w1)
              | Exited rc out err fs \<Rightarrow>
                  (Inr \<lparr>stdout = out, stderr = err, return_code = rc,
                        command = join_sp fc, success = (rc = 0)\<rparr>,
                   w1\<lparr>files := fs,
                      ctx_log := ctx_log w1 @ [(join_sp fc, rc, out, err)]\<rparr>)))"

section \<open>Checkpoint store (simulation.py)\<close>

fun files_to_backup :: "SimulationStep \<Rightarrow> string list" where
  "files_to_backup MINIMIZATION = [''em.gro'', ''em.edr'', ''em.log'']"
| "files_to_backup NVT_EQUILIBRATION = [''nvt.gro'', ''nvt.edr'', ''nvt.log'', ''nvt.cpt'']"
| "files_to_backup NPT_EQUILIBRATION = [''npt.gro'', ''npt.edr'', ''npt.log'', ''npt.cpt'']"
| "files_to_backup PRODUCTION = [''md.gro'', ''md.edr'', ''md.log'', ''md.xtc'', ''md.cpt'']"
| "files_to_backup _ = []"

fun files_to_restore :: "SimulationStep \<Rightarrow> string list" where
  "files_to_restore MINIMIZATION = [''em.gro'', ''em.edr'', ''em.log'']"
| "files_to_restore NVT_EQUILIBRATION = [''nvt.gro'', ''nvt.edr'', ''nvt.log'', ''nvt.cpt'']"
| "files_to_restore NPT_EQUILIBRATION = [''npt.gro'', ''npt.edr'', ''npt.log'', ''npt.cpt'']"
| "files_to_restore PRODUCTION = [''md.gro'', ''md.edr'', ''md.log'', ''md.xtc'', ''md.cpt'']"
| "files_to_restore _ = []"

text \<open>
  The loop of \<^verbatim>\<open>backup_checkpoint\<close>: a file that exists in the working directory is
  copied into the checkpoint directory, a file that does not is skipped.
\<close>

fun backup_loop :: "dir \<Rightarrow> string list \<Rightarrow> dir \<Rightarrow> dir" where
  "backup_loop src [] ck = ck"
| "backup_loop src (f # fs) ck =
     (case src f of
        Some c \<Rightarrow> backup_loop src fs (ck(f \<mapsto> c))
      | None \<Rightarrow> backup_loop src fs ck)"

text \<open>
  \<^verbatim>\<open>backup_checkpoint\<close>: \<^verbatim>\<open>mkdir(parents=True, exist_ok=True)\<close> keeps a directory that
  is already there, with what it holds.
\<close>

definition backup_checkpoint :: "world \<Rightarrow> SimulationStep \<Rightarrow> world" where
  "backup_checkpoint w step =
     (let checkpoint_dir = (case checkpoints w (step_value step) of
                              None \<Rightarrow> Map.empty | Some d \<Rightarrow> d)
      in w\<lparr>checkpoints := (checkpoints w)
             (step_value step \<mapsto> backup_loop (files w) (files_to_backup step) checkpoint_dir)\<rparr>)"

text \<open>
  The loop of \<^verbatim>\<open>restore_checkpoint\<close>: each file is copied as it is met, and the first
  file missing from the checkpoint directory ends the call with \<^verbatim>\<open>False\<close>.
\<close>

fun restore_loop :: "dir \<Rightarrow> string list \<Rightarrow> world \<Rightarrow> bool \<times> world" where
  "restore_loop ck [] w = (True, w)"
| "restore_loop ck (f # fs) w =
     (case ck f of
        Some c \<Rightarrow> restore_loop ck fs (w\<lparr>files := (files w)(f \<mapsto> c)\<rparr>)
      | None \<Rightarrow> (False, w))"

definition restore_checkpoint :: "world \<Rightarrow> SimulationStep \<Rightarrow> bool \<times> world" where
  "restore_checkpoint w step =
     (case checkpoints w (step_value step) of
        None \<Rightarrow> (False, w)
      | Some ck \<Rightarrow> restore_loop ck (files_to_restore step) w)"

section \<open>Stage pipeline controller (simulation.py)\<close>

subsection \<open>Texts\<close>

text \<open>
  Python's \<^verbatim>\<open>needle in haystack\<close> on strings: \<open>needle\<close> occurs as a contiguous part.
\<close>

fun starts_with :: "string \<Rightarrow> string \<Rightarrow> bool" where
  "starts_with [] ys = True"
| "starts_with (x # xs) [] = False"
| "starts_with (x # xs) (y # ys) = (x = y \<and> starts_with xs ys)"

fun contains :: "string \<Rightarrow> string \<Rightarrow> bool" where
  "contains needle [] = (needle = [])"
| "contains needle (c # cs) = (starts_with needle (c # cs) \<or> contains needle cs)"

text \<open>
  The literal parts of the messages of the \<^verbatim>\<open>SimulationError\<close>s, as the bytes of their
  UTF-8 encoding. In source order: the text before the error output of a failed
  \<^verbatim>\<open>grompp\<close>; the texts that follow the formatted step after a fatal log line, a failed
  output check and a failed energy check; the three texts of the predecessor checks.
\<close>

definition txt_tpr_failed :: string where
  "txt_tpr_failed =
     [CHR 0xE7, CHR 0x94, CHR 0x9F, CHR 0xE6, CHR 0x88, CHR 0x90, CHR 0x54, CHR 0x50,
      CHR 0x52, CHR 0xE6, CHR 0x96, CHR 0x87, CHR 0xE4, CHR 0xBB, CHR 0xB6, CHR 0xE5,
      CHR 0xA4, CHR 0xB1, CHR 0xE8, CHR 0xB4, CHR 0xA5, CHR 0x3A, CHR 0x20]"

definition txt_sim_failed :: string where
  "txt_sim_failed =
     [CHR 0x20, CHR 0xE6, CHR 0xA8, CHR 0xA1, CHR 0xE6, CHR 0x8B, CHR 0x9F, CHR 0xE5,
      CHR 0xA4, CHR 0xB1, CHR 0xE8, CHR 0xB4, CHR 0xA5]"

definition txt_output_failed :: string where
  "txt_output_failed =
     [CHR 0x20, CHR 0xE8, CHR 0xBE, CHR 0x93, CHR 0xE5, CHR 0x87, CHR 0xBA, CHR 0xE6,
      CHR 0x96, CHR 0x87, CHR 0xE4, CHR 0xBB, CHR 0xB6, CHR 0xE9, CHR 0xAA, CHR 0x8C,
      CHR 0xE8, CHR 0xAF, CHR 0x81, CHR 0xE5, CHR 0xA4, CHR 0xB1, CHR 0xE8, CHR 0xB4,
      CHR 0xA5]"

definition txt_energy_failed :: string where
  "txt_energy_failed =
     [CHR 0x20, CHR 0xE8, CHR 0x83, CHR 0xBD, CHR 0xE9, CHR 0x87, CHR 0x8F, CHR 0xE9,
      CHR 0xAA, CHR 0x8C, CHR 0xE8, CHR 0xAF, CHR 0x81, CHR 0xE5, CHR 0xA4, CHR 0xB1,
      CHR 0xE8, CHR 0xB4, CHR 0xA5]"

definition txt_need_minimization :: string where
  "txt_need_minimization =
     [CHR 0xE5, CHR 0xBF, CHR 0x85, CHR 0xE9, CHR 0xA1, CHR 0xBB, CHR 0xE5, CHR 0x85,
      CHR 0x88, CHR 0xE5, CHR 0xAE, CHR 0x8C, CHR 0xE6, CHR 0x88, CHR 0x90, CHR 0xE8,
      CHR 0x83, CHR 0xBD, CHR 0xE9, CHR 0x87, CHR 0x8F, CHR 0xE6, CHR 0x9C, CHR 0x80,
      CHR 0xE5, CHR 0xB0, CHR 0x8F, CHR 0xE5, CHR 0x8C, CHR 0x96]"

definition txt_need_nvt :: string where
  "txt_need_nvt =
     [CHR 0xE5, CHR 0xBF, CHR 0x85, CHR 0xE9, CHR 0xA1, CHR 0xBB, CHR 0xE5, CHR 0x85,
      CHR 0x88, CHR 0xE5, CHR 0xAE, CHR 0x8C, CHR 0xE6, CHR 0x88, CHR 0x90, CHR 0x4E,
      CHR 0x56, CHR 0x54, CHR 0xE5, CHR 0xB9, CHR 0xB3, CHR 0xE8, CHR 0xA1, CHR 0xA1]"

definition txt_need_npt :: string where
  "txt_need_npt =
     [CHR 0xE5, CHR 0xBF, CHR 0x85, CHR 0xE9, CHR 0xA1, CHR 0xBB, CHR 0xE5, CHR 0x85,
      CHR 0x88, CHR 0xE5, CHR 0xAE, CHR 0x8C, CHR 0xE6, CHR 0x88, CHR 0x90, CHR 0x4E,
      CHR 0x50, CHR 0x54, CHR 0xE5, CHR 0xB9, CHR 0xB3, CHR 0xE8, CHR 0xA1, CHR 0xA1]"

text \<open>\<^verbatim>\<open>str(work_dir / name)\<close> for an absolute working directory and a plain file name.\<close>

definition path_join :: "string \<Rightarrow> string \<Rightarrow> string" where
  "path_join d f = (if d = ''/'' then d @ f else d @ ''/'' @ f)"

subsection \<open>Helpers of the workflow\<close>

text \<open>
  \<^verbatim>\<open>_check_output_files\<close>: the first listed file that does not exist, or has size zero,
  ends the check with \<^verbatim>\<open>False\<close>.
\<close>

fun check_output_files :: "dir \<Rightarrow> string list \<Rightarrow> bool" where
  "check_output_files fs [] = True"
| "check_output_files fs (file # rest) =
     (case fs file of
        None \<Rightarrow> False
      | Some c \<Rightarrow> if length c = 0 then False else check_output_files fs rest)"

text \<open>
  \<^verbatim>\<open>_validate_energy\<close>. The gateway is called with \<^verbatim>\<open>None\<close> as context; an exception
  of the call is caught and gives \<^verbatim>\<open>False\<close>, as does a return code other than zero.
\<close>

definition validate_energy ::
  "env \<Rightarrow> SimulationStep \<Rightarrow> string \<Rightarrow> world \<Rightarrow> bool \<times> world" where
  "validate_energy e step energy_file w =
     (case run_gromacs_command e None ''energy''
             [''-f'', energy_file, ''-o'', step_value step @ ''_energy.xvg''] None w of
        (Inl ex, w') \<Rightarrow> (False, w')
      | (Inr cmd_result, w') \<Rightarrow> (if return_code cmd_result \<noteq> 0 then False else True, w'))"

text \<open>
  \<^verbatim>\<open>_monitor_progress\<close>, from its \<open>k\<close>-th poll on. While the log file does not exist,
  is empty, or ends in a line with neither marker, the loop goes on; nothing bounds
  it, so the function is partial and \<open>None\<close> stands for a loop that never ends. The
  completion marker is tested first, the fatal marker in the \<^verbatim>\<open>elif\<close>.
\<close>

partial_function (option) monitor_progress ::
  "env \<Rightarrow> SimulationStep \<Rightarrow> string \<Rightarrow> nat \<Rightarrow> (exn + unit) option" where
  "monitor_progress e step log_file k =
     (case tail e k log_file of
        None \<Rightarrow> monitor_progress e step log_file (Suc k)
      | Some lines \<Rightarrow>
          if lines \<noteq> [] then
            (if contains ''Finished mdrun'' (last lines) then Some (Inr ())
             else if contains ''Fatal error'' (last lines)
               then Some (Inl (SimulationError (fmt_step e step @ txt_sim_failed)))
             else monitor_progress e step log_file (Suc k))
          else monitor_progress e step log_file (Suc k))"

subsection \<open>The four run operations\<close>

text \<open>
  \<^verbatim>\<open>run_minimization\<close>, \<^verbatim>\<open>run_nvt_equilibration\<close>, \<^verbatim>\<open>run_npt_equilibration\<close> and
  \<^verbatim>\<open>run_production\<close> are the same text up to their constants, which a \<open>phase\<close>
  collects: the step, the predecessor that must be in \<^verbatim>\<open>completed_steps\<close> with the
  message raised when it is not (\<open>None\<close> where the source has no such check), the name
  of the parameter file, the arguments of \<^verbatim>\<open>grompp\<close> given the path of that file, the
  \<^verbatim>\<open>-deffnm\<close> name, the log file, the required output files and the energy file.
\<close>

record phase =
  ph_step :: SimulationStep
  ph_requires :: "(SimulationStep \<times> string) option"
  ph_mdp :: string
  ph_grompp :: "string \<Rightarrow> string list"
  ph_deffnm :: string
  ph_log :: string
  ph_required :: "string list"
  ph_edr :: string

definition minimization_phase :: phase where
  "minimization_phase =
     \<lparr>ph_step = MINIMIZATION, ph_requires = None, ph_mdp = ''em.mdp'',
      ph_grompp = (\<lambda>mdp. [''-f'', mdp, ''-c'', ''solvated.gro'', ''-p'', ''topol.top'',
                           ''-o'', ''em.tpr'']),
      ph_deffnm = ''em'', ph_log = ''em.log'',
      ph_required = [''em.gro'', ''em.edr'', ''em.log''], ph_edr = ''em.edr''\<rparr>"

definition nvt_phase :: phase where
  "nvt_phase =
     \<lparr>ph_step = NVT_EQUILIBRATION, ph_requires = Some (MINIMIZATION, txt_need_minimization),
      ph_mdp = ''nvt.mdp'',
      ph_grompp = (\<lambda>mdp. [''-f'', mdp, ''-c'', ''em.gro'', ''-r'', ''em.gro'',
                           ''-p'', ''topol.top'', ''-o'', ''nvt.tpr'']),
      ph_deffnm = ''nvt'', ph_log = ''nvt.log'',
      ph_required = [''nvt.gro'', ''nvt.edr'', ''nvt.log'', ''nvt.cpt''], ph_edr = ''nvt.edr''\<rparr>"

definition npt_phase :: phase where
  "npt_phase =
     \<lparr>ph_step = NPT_EQUILIBRATION, ph_requires = Some (NVT_EQUILIBRATION, txt_need_nvt),
      ph_mdp = ''npt.mdp'',
      ph_grompp = (\<lambda>mdp. [''-f'', mdp, ''-c'', ''nvt.gro'', ''-r'', ''nvt.gro'',
                           ''-t'', ''nvt.cpt'', ''-p'', ''topol.top'', ''-o'', ''npt.tpr'']),
      ph_deffnm = ''npt'', ph_log = ''npt.log'',
      ph_required = [''npt.gro'', ''npt.edr'', ''npt.log'', ''npt.cpt''], ph_edr = ''npt.edr''\<rparr>"

definition production_phase :: phase where
  "production_phase =
     \<lparr>ph_step = PRODUCTION, ph_requires = Some (NPT_EQUILIBRATION, txt_need_npt),
      ph_mdp = ''md.mdp'',
      ph_grompp = (\<lambda>mdp. [''-f'', mdp, ''-c'', ''npt.gro'', ''-t'', ''npt.cpt'',
                           ''-p'', ''topol.top'', ''-o'', ''md.tpr'']),
      ph_deffnm = ''md'', ph_log = ''md.log'',
      ph_required = [''md.gro'', ''md.edr'', ''md.log'', ''md.xtc'', ''md.cpt''],
      ph_edr = ''md.edr''\<rparr>"

text \<open>The predecessor check at the head of the \<^verbatim>\<open>try\<close> block: the exception it raises, if any.\<close>

definition precondition :: "phase \<Rightarrow> world \<Rightarrow> exn option" where
  "precondition ph w =
     (case ph_requires ph of
        None \<Rightarrow> None
      | Some (p, msg) \<Rightarrow>
          if p \<notin> set (completed_steps (status w)) then Some (SimulationError msg) else None)"

text \<open>
  From the parameter file to the end of \<^verbatim>\<open>mdrun\<close>: the file is written, \<^verbatim>\<open>grompp\<close> is
  run and its return code is checked, \<^verbatim>\<open>mdrun\<close> is run and awaited; its return code is
  not looked at.
\<close>

definition launch ::
  "env \<Rightarrow> phase \<Rightarrow> Context \<Rightarrow> world
     \<Rightarrow> (exn + GromacsCmdResult \<times> GromacsCmdResult) \<times> world" where
  "launch e ph ctx w =
     (let w1 = w\<lparr>files := (files w)(ph_mdp ph \<mapsto> render_mdp e (ph_step ph))\<rparr> in
      case run_gromacs_command e (Some ctx) ''grompp''
             (ph_grompp ph (path_join (work_dir e) (ph_mdp ph))) None w1 of
        (Inl ex, w2) \<Rightarrow> (Inl ex, w2)
      | (Inr grompp_result, w2) \<Rightarrow>
          if return_code grompp_result \<noteq> 0
          then (Inl (SimulationError (txt_tpr_failed @ stderr grompp_result)), w2)
          else (case run_gromacs_command e (Some ctx) ''mdrun''
                       [''-v'', ''-deffnm'', ph_deffnm ph] None w2 of
                  (Inl ex, w3) \<Rightarrow> (Inl ex, w3)
                | (Inr mdrun_result, w3) \<Rightarrow> (Inr (grompp_result, mdrun_result), w3)))"

text \<open>
  After the monitor has returned: the output check, the energy check, and then the one
  statement that records completion, \<^verbatim>\<open>self.status.completed_steps.append(step)\<close>.
\<close>

definition conclude ::
  "env \<Rightarrow> phase \<Rightarrow> GromacsCmdResult \<times> GromacsCmdResult \<Rightarrow> world
     \<Rightarrow> (exn + GromacsCmdResult \<times> GromacsCmdResult) \<times> world" where
  "conclude e ph results w =
     (if \<not> check_output_files (files w) (ph_required ph)
      then (Inl (SimulationError (fmt_step e (ph_step ph) @ txt_output_failed)), w)
      else (case validate_energy e (ph_step ph) (ph_edr ph) w of
              (ok, w') \<Rightarrow>
                if \<not> ok
                then (Inl (SimulationError (fmt_step e (ph_step ph) @ txt_energy_failed)), w')
                else (Inr results,
                      w'\<lparr>status := (status w')
                           \<lparr>completed_steps := completed_steps (status w') @ [ph_step ph]\<rparr>\<rparr>)))"

text \<open>The body of the \<^verbatim>\<open>try\<close> block; \<open>None\<close> when the monitor never returns.\<close>

definition phase_body ::
  "env \<Rightarrow> phase \<Rightarrow> Context \<Rightarrow> world
     \<Rightarrow> ((exn + GromacsCmdResult \<times> GromacsCmdResult) \<times> world) option" where
  "phase_body e ph ctx w =
     (case precondition ph w of
        Some ex \<Rightarrow> Some (Inl ex, w)
      | None \<Rightarrow>
          (case launch e ph ctx w of
             (Inl ex, w1) \<Rightarrow> Some (Inl ex, w1)
           | (Inr results, w1) \<Rightarrow>
               (case monitor_progress e (ph_step ph) (ph_log ph) 0 of
                  None \<Rightarrow> None
                | Some (Inl ex) \<Rightarrow> Some (Inl ex, w1)
                | Some (Inr u) \<Rightarrow> Some (conclude e ph results w1))))"

text \<open>
  A run operation: \<^verbatim>\<open>current_step\<close> is set, the body runs, and the handler
  \<^verbatim>\<open>except Exception as e: self.status.errors[step] = str(e); raise\<close> records the
  message of whatever the body raised.
\<close>

definition run_phase ::
  "env \<Rightarrow> phase \<Rightarrow> Context \<Rightarrow> world
     \<Rightarrow> ((exn + GromacsCmdResult \<times> GromacsCmdResult) \<times> world) option" where
  "run_phase e ph ctx w =
     (case phase_body e ph ctx (w\<lparr>status := (status w)\<lparr>current_step := Some (ph_step ph)\<rparr>\<rparr>) of
        None \<Rightarrow> None
      | Some (Inl ex, w1) \<Rightarrow>
          Some (Inl ex,
                w1\<lparr>status := (status w1)
                     \<lparr>errors := (errors (status w1))(ph_step ph \<mapsto> str_of ex)\<rparr>\<rparr>)
      | Some (Inr results, w1) \<Rightarrow> Some (Inr results, w1))"

definition run_minimization ::
  "env \<Rightarrow> Context \<Rightarrow> world
     \<Rightarrow> ((exn + GromacsCmdResult \<times> GromacsCmdResult) \<times> world) option" where
  "run_minimization e ctx w = run_phase e minimization_phase ctx w"

definition run_nvt_equilibration ::
  "env \<Rightarrow> Context \<Rightarrow> world
     \<Rightarrow> ((exn + GromacsCmdResult \<times> GromacsCmdResult) \<times> world) option" where
  "run_nvt_equilibration e ctx w = run_phase e nvt_phase ctx w"

definition run_npt_equilibration ::
  "env \<Rightarrow> Context \<Rightarrow> world
     \<Rightarrow> ((exn + GromacsCmdResult \<times> GromacsCmdResult) \<times> world) option" where
  "run_npt_equilibration e ctx w = run_phase e npt_phase ctx w"

definition run_production ::
  "env \<Rightarrow> Context \<Rightarrow> world
     \<Rightarrow> ((exn + GromacsCmdResult \<times> GromacsCmdResult) \<times> world) option" where
  "run_production e ctx w = run_phase e production_phase ctx w"

subsection \<open>What a poll of the log shows\<close>

text \<open>
  Three readings of one poll, used to state what the monitor does: the last line holds
  the completion marker; the last line holds the fatal marker; neither (the file is
  missing or empty, or its last line holds no marker), in which case the loop sleeps
  and polls again.
\<close>

definition poll_done :: "string list option \<Rightarrow> bool" where
  "poll_done obs =
     (case obs of None \<Rightarrow> False
      | Some lines \<Rightarrow> lines \<noteq> [] \<and> contains ''Finished mdrun'' (last lines))"

definition poll_fatal :: "string list option \<Rightarrow> bool" where
  "poll_fatal obs =
     (case obs of None \<Rightarrow> False
      | Some lines \<Rightarrow> lines \<noteq> [] \<and> contains ''Fatal error'' (last lines))"

definition poll_pending :: "string list option \<Rightarrow> bool" where
  "poll_pending obs = (\<not> poll_done obs \<and> \<not> poll_fatal obs)"

section \<open>Concrete worlds and environments\<close>

text \<open>
  The inputs at which the theorems below are instantiated: a working directory with
  nothing in it, checkpoint directories in several states, two contexts and an
  environment with no executable to start.
\<close>

definition blank_world :: world where
  "blank_world = \<lparr>status = new_status, files = Map.empty, checkpoints = Map.empty,
     gw_calls = [], spawned = [], ctx_log = [], registry = []\<rparr>"

definition w_partial :: world where
  "w_partial = blank_world\<lparr>checkpoints := [''minimization'' \<mapsto> [''em.gro'' \<mapsto> ''A'']]\<rparr>"

definition w_em :: world where
  "w_em = blank_world\<lparr>files :=
     [''em.gro'' \<mapsto> ''G'', ''em.edr'' \<mapsto> ''E'', ''em.log'' \<mapsto> ''L'']\<rparr>"

definition w_ckdir :: world where
  "w_ckdir = blank_world\<lparr>checkpoints := [''analysis'' \<mapsto> [''old.dat'' \<mapsto> ''X'']]\<rparr>"

definition ctx_gmx :: Context where
  "ctx_gmx = \<lparr>working_dir = ''/work'', gmx_path = ''gmx''\<rparr>"

definition ctx_abs :: Context where
  "ctx_abs = \<lparr>working_dir = ''/work'', gmx_path = ''/opt/gromacs/bin/gmx''\<rparr>"

definition env_nobin :: env where
  "env_nobin = \<lparr>spawn = (\<lambda>argv cwd inp fs. SpawnError ''No such file or directory''),
     tail = (\<lambda>k f. None), fmt_step = step_value, render_mdp = (\<lambda>s. []),
     work_dir = ''/work''\<rparr>"

text \<open>
  An engine that does its part for the minimization step: every process exits with
  code 0 and leaves the three output files, non-empty, in the working directory, and
  the log ends in the completion marker. Three variants: the log ends in a line with
  the fatal marker only; the log ends in a line with both markers; the processes leave
  no output file.
\<close>

definition em_outputs :: "dir \<Rightarrow> dir" where
  "em_outputs fs = fs(''em.gro'' \<mapsto> ''G'', ''em.edr'' \<mapsto> ''E'',
                      ''em.log'' \<mapsto> ''Finished mdrun on rank 0'')"

definition env_ok :: env where
  "env_ok = \<lparr>spawn = (\<lambda>argv cwd inp fs. Exited 0 [] [] (em_outputs fs)),
     tail = (\<lambda>k f. Some [''Finished mdrun on rank 0'']),
     fmt_step = step_value, render_mdp = (\<lambda>s. ''integrator = steep''),
     work_dir = ''/work''\<rparr>"

definition env_fatal :: env where
  "env_fatal = env_ok\<lparr>tail := (\<lambda>k f. Some [''Fatal error: bad input''])\<rparr>"

definition env_both :: env where
  "env_both = env_ok\<lparr>tail := (\<lambda>k f. Some [''Fatal error before Finished mdrun''])\<rparr>"

definition env_noout :: env where
  "env_noout = env_ok\<lparr>spawn := (\<lambda>argv cwd inp fs. Exited 0 [] [] fs)\<rparr>"

text \<open>A status in which the minimization step is completed and no error is recorded.\<close>

definition w_done_min :: world where
  "w_done_min = blank_world\<lparr>status := new_status\<lparr>completed_steps := [MINIMIZATION]\<rparr>\<rparr>"

section \<open>Properties of the checkpoint store\<close>

text \<open>
  What the restore loop computes: it succeeds exactly when every listed file is in the
  checkpoint directory, and it has copied the listed files that come before the first
  missing one.
\<close>

lemma restore_loop_spec:
  "restore_loop ck fs w =
     (list_all (\<lambda>f. ck f \<noteq> None) fs,
      w\<lparr>files := (\<lambda>x. if x \<in> set (takeWhile (\<lambda>f. ck f \<noteq> None) fs) then ck x
                       else files w x)\<rparr>)"
proof (induction fs arbitrary: w)
  case Nil
  show ?case by simp
next
  case (Cons f fs)
  show ?case
  proof (cases "ck f")
    case None
    then show ?thesis by simp
  next
    case (Some c)
    have "(\<lambda>x. if x \<in> set (takeWhile (\<lambda>f. ck f \<noteq> None) fs) then ck x
               else ((files w)(f \<mapsto> c)) x)
        = (\<lambda>x. if x = f \<or> x \<in> set (takeWhile (\<lambda>f. ck f \<noteq> None) fs) then ck x
               else files w x)"
      using Some by (auto simp: fun_eq_iff)
    with Some show ?thesis by (simp add: Cons.IH cong del: if_weak_cong)
  qed
qed

lemma restore_loop_all:
  assumes "\<forall>f \<in> set fs. ck f \<noteq> None"
  shows "restore_loop ck fs w =
           (True, w\<lparr>files := (\<lambda>x. if x \<in> set fs then ck x else files w x)\<rparr>)"
proof -
  from assms have "list_all (\<lambda>f. ck f \<noteq> None) fs"
    unfolding list_all_iff by blast
  moreover from assms have "takeWhile (\<lambda>f. ck f \<noteq> None) fs = fs"
    by (intro takeWhile_eq_all_conv[THEN iffD2]) blast
  ultimately show ?thesis
    by (simp only: restore_loop_spec)
qed

lemma backup_loop_spec:
  "backup_loop src fs ck x = (if x \<in> set fs \<and> src x \<noteq> None then src x else ck x)"
  by (induction fs arbitrary: ck) (auto split: option.splits)

lemma restore_same_table: "files_to_restore P = files_to_backup P"
  by (cases P) simp_all

text \<open>
  C2, as the code has it. \<^verbatim>\<open>restore_checkpoint\<close> returns \<^verbatim>\<open>True\<close> exactly when the
  checkpoint directory exists and holds every file listed for the step. When the
  directory is missing nothing is touched. When the directory exists, the working
  directory afterwards differs from the one before only at the listed files that come
  before the first missing one, which have been copied, also on a call that returns
  \<^verbatim>\<open>False\<close>. The checkpoint store itself is never changed.
\<close>

theorem restore_checkpoint_outcome:
  assumes "restore_checkpoint w P = (b, w')"
  shows "(b \<longleftrightarrow> (\<exists>ck. checkpoints w (step_value P) = Some ck \<and>
                     (\<forall>f \<in> set (files_to_restore P). ck f \<noteq> None))) \<and>
         (checkpoints w (step_value P) = None \<longrightarrow> w' = w) \<and>
         (\<forall>ck. checkpoints w (step_value P) = Some ck \<longrightarrow>
            files w' = (\<lambda>x. if x \<in> set (takeWhile (\<lambda>f. ck f \<noteq> None) (files_to_restore P))
                           then ck x else files w x)) \<and>
         checkpoints w' = checkpoints w"
  using assms
  by (auto simp: restore_checkpoint_def restore_loop_spec list_all_iff split: option.splits)

theorem restore_checkpoint_outcome_witness:
  "restore_checkpoint w_partial MINIMIZATION
     = (False, w_partial\<lparr>files := [''em.gro'' \<mapsto> ''A'']\<rparr>) \<and>
   checkpoints w_partial (step_value MINIMIZATION) = Some [''em.gro'' \<mapsto> ''A''] \<and>
   restore_checkpoint blank_world MINIMIZATION = (False, blank_world) \<and>
   checkpoints blank_world (step_value MINIMIZATION) = None \<and>
   checkpoints (w_partial\<lparr>files := [''em.gro'' \<mapsto> ''A'']\<rparr>) = checkpoints w_partial"
proof -
  have h1: "restore_checkpoint w_partial MINIMIZATION
              = (False, w_partial\<lparr>files := [''em.gro'' \<mapsto> ''A'']\<rparr>)"
    by (simp add: restore_checkpoint_def w_partial_def blank_world_def)
  have h2: "restore_checkpoint blank_world MINIMIZATION = (False, blank_world)"
    by (simp add: restore_checkpoint_def blank_world_def)
  have c1: "checkpoints w_partial (step_value MINIMIZATION) = Some [''em.gro'' \<mapsto> ''A'']"
    by (simp add: w_partial_def blank_world_def)
  have c2: "checkpoints blank_world (step_value MINIMIZATION) = None"
    by (simp add: blank_world_def)
  from restore_checkpoint_outcome[OF h1] restore_checkpoint_outcome[OF h2] h1 h2 c1 c2
  show ?thesis by simp
qed

text \<open>
  C2, as the specification states it, fails: with \<^verbatim>\<open>em.gro\<close> in the checkpoint
  directory of the minimization step and \<^verbatim>\<open>em.edr\<close> missing from it, the call returns
  \<^verbatim>\<open>False\<close> and \<^verbatim>\<open>em.gro\<close>, absent from the working directory before, is there after.
\<close>

theorem restore_partial_counterexample:
  "fst (restore_checkpoint w_partial MINIMIZATION) = False \<and>
   files w_partial ''em.gro'' = None \<and>
   files (snd (restore_checkpoint w_partial MINIMIZATION)) ''em.gro'' = Some ''A''"
  by (simp add: restore_checkpoint_def w_partial_def blank_world_def)

text \<open>
  C8. When every file listed for step \<open>P\<close> is in the working directory, a backup
  followed by a restore returns \<^verbatim>\<open>True\<close> and leaves the world, and so every file of the
  working directory, as the backup left it, which has the files of the start. The same
  restore brings the listed files back with their contents at the time of the backup
  whatever the working directory (\<open>fs'\<close>) has become in between.
\<close>

theorem backup_restore_round_trip:
  assumes "\<forall>f \<in> set (files_to_backup P). files w f \<noteq> None"
  shows "restore_checkpoint (backup_checkpoint w P) P = (True, backup_checkpoint w P) \<and>
         files (backup_checkpoint w P) = files w \<and>
         fst (restore_checkpoint ((backup_checkpoint w P)\<lparr>files := fs'\<rparr>) P) = True \<and>
         (\<forall>f \<in> set (files_to_backup P).
           files (snd (restore_checkpoint ((backup_checkpoint w P)\<lparr>files := fs'\<rparr>) P)) f
             = files w f)"
proof (intro conjI)
  define b where "b = backup_checkpoint w P"
  define ck where "ck = backup_loop (files w) (files_to_backup P)
               (case checkpoints w (step_value P) of None \<Rightarrow> Map.empty | Some d \<Rightarrow> d)"
  have ckb: "checkpoints b (step_value P) = Some ck"
    by (simp add: b_def ck_def backup_checkpoint_def)
  have same: "\<forall>f \<in> set (files_to_backup P). ck f = files w f"
    using assms by (simp add: ck_def backup_loop_spec)
  with assms have present: "\<forall>f \<in> set (files_to_restore P). ck f \<noteq> None"
    by (simp add: restore_same_table)
  have fs: "files b = files w"
    by (simp add: b_def backup_checkpoint_def)
  have r: "restore_checkpoint (b\<lparr>files := g\<rparr>) P =
             (True, b\<lparr>files := (\<lambda>x. if x \<in> set (files_to_restore P) then ck x else g x)\<rparr>)"
    for g
    using ckb restore_loop_all[OF present, of "b\<lparr>files := g\<rparr>"]
    by (simp add: restore_checkpoint_def cong del: if_weak_cong)
  have "(\<lambda>x. if x \<in> set (files_to_restore P) then ck x else files w x) = files w"
    using same by (auto simp: fun_eq_iff restore_same_table)
  moreover have "b\<lparr>files := files w\<rparr> = b"
    by (simp add: fs[symmetric])
  ultimately have "restore_checkpoint b P = (True, b)"
    using r[of "files w"] by simp
  then show "restore_checkpoint (backup_checkpoint w P) P = (True, backup_checkpoint w P)"
    by (simp add: b_def)
  show "files (backup_checkpoint w P) = files w"
    using fs by (simp add: b_def)
  show "fst (restore_checkpoint ((backup_checkpoint w P)\<lparr>files := fs'\<rparr>) P) = True"
    using r[of fs'] by (simp add: b_def)
  show "\<forall>f \<in> set (files_to_backup P).
           files (snd (restore_checkpoint ((backup_checkpoint w P)\<lparr>files := fs'\<rparr>) P)) f
             = files w f"
    using r[of fs'] same by (simp add: b_def restore_same_table)
qed

theorem backup_restore_round_trip_witness:
  "files_to_backup MINIMIZATION = [''em.gro'', ''em.edr'', ''em.log''] \<and>
   files w_em ''em.gro'' = Some ''G'' \<and> files w_em ''em.edr'' = Some ''E'' \<and>
   files w_em ''em.log'' = Some ''L'' \<and>
   restore_checkpoint (backup_checkpoint w_em MINIMIZATION) MINIMIZATION
     = (True, backup_checkpoint w_em MINIMIZATION) \<and>
   files (backup_checkpoint w_em MINIMIZATION) ''em.gro'' = Some ''G'' \<and>
   files (snd (restore_checkpoint ((backup_checkpoint w_em MINIMIZATION)\<lparr>files := Map.empty\<rparr>)
                 MINIMIZATION)) ''em.edr'' = Some ''E''"
proof -
  have h: "\<forall>f \<in> set (files_to_backup MINIMIZATION). files w_em f \<noteq> None"
    by (simp add: w_em_def blank_world_def)
  from backup_restore_round_trip[OF h, of Map.empty] h show ?thesis
    by (simp add: w_em_def blank_world_def)
qed

text \<open>
  C10. The steps \<^verbatim>\<open>system_preparation\<close> and \<^verbatim>\<open>analysis\<close> have no entry in either file
  table. For them a restore returns \<^verbatim>\<open>True\<close> and changes nothing as soon as the
  checkpoint directory exists; a backup creates the directory, empty, when it does not
  exist, leaves an existing directory as it is, copies nothing and has no failing
  branch.
\<close>

theorem unlisted_step_checkpoint:
  assumes "P = SYSTEM_PREPARATION \<or> P = ANALYSIS"
  shows "(checkpoints w (step_value P) \<noteq> None \<longrightarrow> restore_checkpoint w P = (True, w)) \<and>
         (checkpoints w (step_value P) = None \<longrightarrow>
            backup_checkpoint w P
              = w\<lparr>checkpoints := (checkpoints w)(step_value P \<mapsto> Map.empty)\<rparr>) \<and>
         (\<forall>d. checkpoints w (step_value P) = Some d \<longrightarrow> backup_checkpoint w P = w) \<and>
         files (backup_checkpoint w P) = files w"
  using assms
  by (auto simp: restore_checkpoint_def backup_checkpoint_def fun_upd_idem)

theorem unlisted_step_checkpoint_witness:
  "restore_checkpoint w_ckdir ANALYSIS = (True, w_ckdir) \<and>
   checkpoints w_ckdir (step_value ANALYSIS) \<noteq> None \<and>
   checkpoints blank_world (step_value SYSTEM_PREPARATION) = None \<and>
   checkpoints (backup_checkpoint blank_world SYSTEM_PREPARATION) ''system_preparation''
     = Some Map.empty \<and>
   backup_checkpoint w_ckdir ANALYSIS = w_ckdir"
proof -
  have a: "ANALYSIS = SYSTEM_PREPARATION \<or> ANALYSIS = ANALYSIS" by simp
  have b: "SYSTEM_PREPARATION = SYSTEM_PREPARATION \<or> SYSTEM_PREPARATION = ANALYSIS" by simp
  have c1: "checkpoints w_ckdir (step_value ANALYSIS) = Some [''old.dat'' \<mapsto> ''X'']"
    by (simp add: w_ckdir_def blank_world_def)
  have c2: "checkpoints blank_world (step_value SYSTEM_PREPARATION) = None"
    by (simp add: blank_world_def)
  from unlisted_step_checkpoint[OF a, of w_ckdir] unlisted_step_checkpoint[OF b, of blank_world]
    c1 c2
  show ?thesis by simp
qed

section \<open>Properties of the gateway\<close>

text \<open>
  C5. Called with a context, when no process can be created for the command (the
  creation raises, with text \<open>m\<close>), \<^verbatim>\<open>run_gromacs_command\<close> returns, as a value, the
  result with empty output, \<open>m\<close> as error output, return code \<open>-1\<close> and
  \<^verbatim>\<open>success = False\<close>; the working directory is as before.
\<close>

theorem gateway_spawn_failure_is_data:
  assumes "spawn e (full_cmd c cmd args) (working_dir c) input_data (files w) = SpawnError m"
  shows "fst (run_gromacs_command e (Some c) cmd args input_data w) =
           Inr \<lparr>stdout = [], stderr = m, return_code = - 1,
                command = join_sp (full_cmd c cmd args), success = False\<rparr> \<and>
         files (snd (run_gromacs_command e (Some c) cmd args input_data w)) = files w"
  using assms by (simp add: run_gromacs_command_def Let_def)

theorem gateway_spawn_failure_is_data_witness:
  "spawn env_nobin (full_cmd ctx_gmx ''grompp'' [''-f'', ''em.mdp'']) (working_dir ctx_gmx) None
     (files blank_world) = SpawnError ''No such file or directory'' \<and>
   fst (run_gromacs_command env_nobin (Some ctx_gmx) ''grompp'' [''-f'', ''em.mdp''] None
          blank_world)
     = Inr \<lparr>stdout = [], stderr = ''No such file or directory'', return_code = - 1,
            command = ''gmx grompp -f em.mdp'', success = False\<rparr>"
proof -
  have h: "spawn env_nobin (full_cmd ctx_gmx ''grompp'' [''-f'', ''em.mdp''])
             (working_dir ctx_gmx) None (files blank_world)
             = SpawnError ''No such file or directory''"
    by (simp add: env_nobin_def)
  from gateway_spawn_failure_is_data[OF h] h show ?thesis
    by (simp add: full_cmd_def ctx_gmx_def)
qed

text \<open>
  C9. The argument vector handed to the process creation, and the \<^verbatim>\<open>command\<close> text of
  the result, start with the configured path only when that path is the literal
  \<^verbatim>\<open>"gmx"\<close>; with any other configured path they are the bare subcommand and its
  arguments, and the configured path does not occur.
\<close>

theorem gateway_command_line:
  "(gmx_path c = ''gmx'' \<longrightarrow>
      spawned (snd (run_gromacs_command e (Some c) cmd args input_data w))
        = spawned w @ [gmx_path c # cmd # args] \<and>
      (\<exists>r. fst (run_gromacs_command e (Some c) cmd args input_data w) = Inr r \<and>
           command r = join_sp (gmx_path c # cmd # args))) \<and>
   (gmx_path c \<noteq> ''gmx'' \<longrightarrow>
      spawned (snd (run_gromacs_command e (Some c) cmd args input_data w))
        = spawned w @ [cmd # args] \<and>
      (\<exists>r. fst (run_gromacs_command e (Some c) cmd args input_data w) = Inr r \<and>
           command r = join_sp (cmd # args)))"
  by (auto simp: run_gromacs_command_def full_cmd_def Let_def split: proc_outcome.splits)

theorem gateway_command_line_witness:
  "gmx_path ctx_gmx = ''gmx'' \<and>
   spawned (snd (run_gromacs_command env_nobin (Some ctx_gmx) ''mdrun'' [''-v''] None blank_world))
     = [[''gmx'', ''mdrun'', ''-v'']] \<and>
   gmx_path ctx_abs \<noteq> ''gmx'' \<and>
   spawned (snd (run_gromacs_command env_nobin (Some ctx_abs) ''mdrun'' [''-v''] None blank_world))
     = [[''mdrun'', ''-v'']]"
proof -
  have a: "gmx_path ctx_gmx = ''gmx''" by (simp add: ctx_gmx_def)
  have b: "gmx_path ctx_abs \<noteq> ''gmx''" by (simp add: ctx_abs_def)
  have s: "spawned blank_world = []" by (simp add: blank_world_def)
  from gateway_command_line[of ctx_gmx env_nobin "''mdrun''" "[''-v'']" None blank_world]
       gateway_command_line[of ctx_abs env_nobin "''mdrun''" "[''-v'']" None blank_world]
       a b s
  show ?thesis by simp
qed

section \<open>Properties of the run operations\<close>

subsection \<open>What each stage leaves untouched\<close>

lemma gateway_frame:
  assumes "run_gromacs_command e c cmd args i w = (r, w')"
  shows "status w' = status w \<and> checkpoints w' = checkpoints w \<and> registry w' = registry w"
  using assms
  by (auto simp: run_gromacs_command_def Let_def split: option.splits proc_outcome.splits)

lemma gateway_with_context:
  "\<exists>r w'. run_gromacs_command e (Some c) cmd args i w = (Inr r, w')"
  by (auto simp: run_gromacs_command_def Let_def split: proc_outcome.splits)

text \<open>
  The energy check never passes: \<^verbatim>\<open>_validate_energy\<close> calls the gateway with \<^verbatim>\<open>None\<close>,
  the gateway raises on \<^verbatim>\<open>ctx.gmx_path\<close> before creating any process, and the handler
  of \<^verbatim>\<open>_validate_energy\<close> turns the exception into \<^verbatim>\<open>False\<close>. So every run operation
  that gets as far as the energy check ends in its \<^verbatim>\<open>SimulationError\<close>, and the
  statement that appends to \<^verbatim>\<open>completed_steps\<close> is never reached.
\<close>

lemma validate_energy_fails:
  "validate_energy e step f w =
     (False, w\<lparr>gw_calls := gw_calls w @
        [(''energy'', [''-f'', f, ''-o'', step_value step @ ''_energy.xvg''])]\<rparr>)"
  by (simp add: validate_energy_def run_gromacs_command_def)

lemma launch_frame:
  assumes "launch e ph ctx w = (r, w')"
  shows "status w' = status w \<and> checkpoints w' = checkpoints w \<and> registry w' = registry w"
proof -
  let ?w1 = "w\<lparr>files := (files w)(ph_mdp ph \<mapsto> render_mdp e (ph_step ph))\<rparr>"
  obtain r1 w2 where g1: "run_gromacs_command e (Some ctx) ''grompp''
      (ph_grompp ph (path_join (work_dir e) (ph_mdp ph))) None ?w1 = (r1, w2)"
    by (cases "run_gromacs_command e (Some ctx) ''grompp''
      (ph_grompp ph (path_join (work_dir e) (ph_mdp ph))) None ?w1") auto
  obtain r2 w3 where g2: "run_gromacs_command e (Some ctx) ''mdrun''
      [''-v'', ''-deffnm'', ph_deffnm ph] None w2 = (r2, w3)"
    by (cases "run_gromacs_command e (Some ctx) ''mdrun''
      [''-v'', ''-deffnm'', ph_deffnm ph] None w2") auto
  from gateway_frame[OF g1] have f1: "status w2 = status w" "checkpoints w2 = checkpoints w"
    "registry w2 = registry w" by simp_all
  from gateway_frame[OF g2] f1 have f2: "status w3 = status w" "checkpoints w3 = checkpoints w"
    "registry w3 = registry w" by simp_all
  from assms g1 g2 f1 f2 show ?thesis
    by (auto simp: launch_def Let_def split: sum.splits if_splits)
qed

lemma conclude_cases:
  assumes "conclude e ph res w = (r, w')"
  shows "checkpoints w' = checkpoints w \<and> registry w' = registry w \<and>
         completed_steps (status w') = completed_steps (status w) \<and>
         errors (status w') = errors (status w) \<and>
         (\<exists>ex. r = Inl ex)"
  using assms
  by (auto simp: conclude_def validate_energy_fails split: if_splits)

lemma phase_body_cases:
  assumes "phase_body e ph ctx w = Some (r, w')"
  shows "checkpoints w' = checkpoints w \<and> registry w' = registry w \<and>
         completed_steps (status w') = completed_steps (status w) \<and>
         errors (status w') = errors (status w) \<and>
         (\<exists>ex. r = Inl ex)"
proof (cases "precondition ph w")
  case (Some ex)
  with assms show ?thesis by (auto simp: phase_body_def)
next
  case None
  obtain r1 w1 where l: "launch e ph ctx w = (r1, w1)"
    by (cases "launch e ph ctx w") auto
  note f = launch_frame[OF l]
  show ?thesis
  proof (cases r1)
    case (Inl ex)
    with assms None l f show ?thesis by (auto simp: phase_body_def)
  next
    case (Inr res)
    show ?thesis
    proof (cases "monitor_progress e (ph_step ph) (ph_log ph) 0")
      case None
      with assms \<open>precondition ph w = None\<close> l Inr show ?thesis
        by (simp add: phase_body_def)
    next
      case (Some m)
      show ?thesis
      proof (cases m)
        case (Inl ex)
        with assms \<open>precondition ph w = None\<close> l Inr Some f show ?thesis
          by (auto simp: phase_body_def)
      next
        case (Inr u)
        with assms \<open>precondition ph w = None\<close> l \<open>r1 = Inr res\<close> Some
        have c: "conclude e ph res w1 = (r, w')"
          by (simp add: phase_body_def)
        from conclude_cases[OF c] f show ?thesis by simp
      qed
    qed
  qed
qed

lemma run_phase_cases:
  assumes "run_phase e ph ctx w = Some (r, w')"
  shows "checkpoints w' = checkpoints w \<and> registry w' = registry w \<and>
         completed_steps (status w') = completed_steps (status w) \<and>
         (\<exists>ex. r = Inl ex \<and>
               errors (status w') = (errors (status w))(ph_step ph \<mapsto> str_of ex))"
proof -
  let ?w0 = "w\<lparr>status := (status w)\<lparr>current_step := Some (ph_step ph)\<rparr>\<rparr>"
  from assms obtain r1 w1 where b: "phase_body e ph ctx ?w0 = Some (r1, w1)"
    by (cases "phase_body e ph ctx ?w0") (auto simp: run_phase_def)
  from phase_body_cases[OF b] obtain ex where
    f: "checkpoints w1 = checkpoints w" "registry w1 = registry w"
       "completed_steps (status w1) = completed_steps (status w)"
       "errors (status w1) = errors (status w)" "r1 = Inl ex"
    by auto
  from assms b f show ?thesis
    by (auto simp: run_phase_def)
qed

subsection \<open>The monitor\<close>

lemma monitor_done_now:
  "poll_done (tail e k f) \<Longrightarrow> monitor_progress e s f k = Some (Inr ())"
  by (subst monitor_progress.simps) (auto simp: poll_done_def split: option.splits)

lemma monitor_fatal_now:
  "poll_fatal (tail e k f) \<Longrightarrow> \<not> poll_done (tail e k f) \<Longrightarrow>
   monitor_progress e s f k = Some (Inl (SimulationError (fmt_step e s @ txt_sim_failed)))"
  by (subst monitor_progress.simps)
     (auto simp: poll_done_def poll_fatal_def split: option.splits)

lemma monitor_pending_step:
  "poll_pending (tail e k f) \<Longrightarrow> monitor_progress e s f k = monitor_progress e s f (Suc k)"
  by (subst monitor_progress.simps)
     (auto simp: poll_pending_def poll_done_def poll_fatal_def split: option.splits)

lemma monitor_skips_pending:
  assumes "\<forall>k<n. poll_pending (tail e (k0 + k) f)"
  shows "monitor_progress e s f k0 = monitor_progress e s f (k0 + n)"
  using assms
proof (induction n arbitrary: k0)
  case 0
  show ?case by simp
next
  case (Suc n)
  from Suc.prems have p0: "poll_pending (tail e k0 f)"
    by (metis add.right_neutral zero_less_Suc)
  have "\<forall>k<n. poll_pending (tail e (Suc k0 + k) f)"
  proof (intro allI impI)
    fix k assume "k < n"
    then have "Suc k < Suc n" by simp
    with Suc.prems have "poll_pending (tail e (k0 + Suc k) f)" by blast
    then show "poll_pending (tail e (Suc k0 + k) f)" by simp
  qed
  from Suc.IH[OF this] monitor_pending_step[OF p0] show ?case by simp
qed

subsection \<open>The predecessor check\<close>

lemma precondition_stops_run:
  assumes "ph_requires ph = Some (p, msg)" and "p \<notin> set (completed_steps (status w))"
  shows "run_phase e ph ctx w =
           Some (Inl (SimulationError msg),
                 w\<lparr>status := (status w)\<lparr>current_step := Some (ph_step ph),
                      errors := (errors (status w))(ph_step ph \<mapsto> msg)\<rparr>\<rparr>)"
  using assms by (simp add: run_phase_def phase_body_def precondition_def)

text \<open>
  C1, as the code has it. \<^verbatim>\<open>run_nvt_equilibration\<close>, \<^verbatim>\<open>run_npt_equilibration\<close> and
  \<^verbatim>\<open>run_production\<close>, called while their predecessor (minimization, NVT
  equilibration, NPT equilibration) is not in \<^verbatim>\<open>completed_steps\<close>, raise the
  \<^verbatim>\<open>SimulationError\<close> of the predecessor check, whose message is recorded in
  \<^verbatim>\<open>errors\<close> under the step; the gateway is not entered, no process is created, the
  working directory and \<^verbatim>\<open>completed_steps\<close> are as before.
\<close>

theorem precondition_guard:
  "(MINIMIZATION \<notin> set (completed_steps (status w)) \<longrightarrow>
      (\<exists>w'. run_nvt_equilibration e ctx w = Some (Inl (SimulationError txt_need_minimization), w')
        \<and> errors (status w') NVT_EQUILIBRATION = Some txt_need_minimization
        \<and> gw_calls w' = gw_calls w \<and> spawned w' = spawned w \<and> files w' = files w
        \<and> completed_steps (status w') = completed_steps (status w))) \<and>
   (NVT_EQUILIBRATION \<notin> set (completed_steps (status w)) \<longrightarrow>
      (\<exists>w'. run_npt_equilibration e ctx w = Some (Inl (SimulationError txt_need_nvt), w')
        \<and> errors (status w') NPT_EQUILIBRATION = Some txt_need_nvt
        \<and> gw_calls w' = gw_calls w \<and> spawned w' = spawned w \<and> files w' = files w
        \<and> completed_steps (status w') = completed_steps (status w))) \<and>
   (NPT_EQUILIBRATION \<notin> set (completed_steps (status w)) \<longrightarrow>
      (\<exists>w'. run_production e ctx w = Some (Inl (SimulationError txt_need_npt), w')
        \<and> errors (status w') PRODUCTION = Some txt_need_npt
        \<and> gw_calls w' = gw_calls w \<and> spawned w' = spawned w \<and> files w' = files w
        \<and> completed_steps (status w') = completed_steps (status w)))"
proof (intro conjI impI)
  assume a: "MINIMIZATION \<notin> set (completed_steps (status w))"
  have "ph_requires nvt_phase = Some (MINIMIZATION, txt_need_minimization)"
    by (simp add: nvt_phase_def)
  from precondition_stops_run[OF this a, of e ctx]
  show "\<exists>w'. run_nvt_equilibration e ctx w = Some (Inl (SimulationError txt_need_minimization), w')
        \<and> errors (status w') NVT_EQUILIBRATION = Some txt_need_minimization
        \<and> gw_calls w' = gw_calls w \<and> spawned w' = spawned w \<and> files w' = files w
        \<and> completed_steps (status w') = completed_steps (status w)"
    by (simp add: run_nvt_equilibration_def nvt_phase_def)
next
  assume a: "NVT_EQUILIBRATION \<notin> set (completed_steps (status w))"
  have "ph_requires npt_phase = Some (NVT_EQUILIBRATION, txt_need_nvt)"
    by (simp add: npt_phase_def)
  from precondition_stops_run[OF this a, of e ctx]
  show "\<exists>w'. run_npt_equilibration e ctx w = Some (Inl (SimulationError txt_need_nvt), w')
        \<and> errors (status w') NPT_EQUILIBRATION = Some txt_need_nvt
        \<and> gw_calls w' = gw_calls w \<and> spawned w' = spawned w \<and> files w' = files w
        \<and> completed_steps (status w') = completed_steps (status w)"
    by (simp add: run_npt_equilibration_def npt_phase_def)
next
  assume a: "NPT_EQUILIBRATION \<notin> set (completed_steps (status w))"
  have "ph_requires production_phase = Some (NPT_EQUILIBRATION, txt_need_npt)"
    by (simp add: production_phase_def)
  from precondition_stops_run[OF this a, of e ctx]
  show "\<exists>w'. run_production e ctx w = Some (Inl (SimulationError txt_need_npt), w')
        \<and> errors (status w') PRODUCTION = Some txt_need_npt
        \<and> gw_calls w' = gw_calls w \<and> spawned w' = spawned w \<and> files w' = files w
        \<and> completed_steps (status w') = completed_steps (status w)"
    by (simp add: run_production_def production_phase_def)
qed

theorem precondition_guard_witness:
  "MINIMIZATION \<notin> set (completed_steps (status blank_world)) \<and>
   NVT_EQUILIBRATION \<notin> set (completed_steps (status blank_world)) \<and>
   NPT_EQUILIBRATION \<notin> set (completed_steps (status blank_world)) \<and>
   fst (the (run_nvt_equilibration env_ok ctx_gmx blank_world))
     = Inl (SimulationError txt_need_minimization) \<and>
   fst (the (run_npt_equilibration env_ok ctx_gmx blank_world))
     = Inl (SimulationError txt_need_nvt) \<and>
   fst (the (run_production env_ok ctx_gmx blank_world))
     = Inl (SimulationError txt_need_npt) \<and>
   gw_calls (snd (the (run_nvt_equilibration env_ok ctx_gmx blank_world))) = []"
proof -
  have c: "completed_steps (status blank_world) = []" "gw_calls blank_world = []"
    by (simp_all add: blank_world_def new_status_def)
  from precondition_guard[of blank_world env_ok ctx_gmx] c
  show ?thesis by auto
qed

text \<open>
  One run of \<^verbatim>\<open>run_minimization\<close>, traced to its end: a new workflow, an engine whose
  every process exits with code 0 and leaves the output files, and a log that ends in
  the completion marker. The run ends in the \<^verbatim>\<open>SimulationError\<close> of the energy check,
  raised because \<^verbatim>\<open>_validate_energy\<close> hands \<^verbatim>\<open>None\<close> to the gateway as the context.
\<close>

lemma run_min_ok:
  "run_minimization env_ok ctx_gmx blank_world =
     Some (Inl (SimulationError (''minimization'' @ txt_energy_failed)),
       blank_world\<lparr>
         status := \<lparr>current_step = Some MINIMIZATION, completed_steps = [],
                    errors = [MINIMIZATION \<mapsto> ''minimization'' @ txt_energy_failed]\<rparr>,
         files := em_outputs (em_outputs [''em.mdp'' \<mapsto> ''integrator = steep'']),
         gw_calls := [(''grompp'', [''-f'', ''/work/em.mdp'', ''-c'', ''solvated.gro'',
                                    ''-p'', ''topol.top'', ''-o'', ''em.tpr'']),
                      (''mdrun'', [''-v'', ''-deffnm'', ''em'']),
                      (''energy'', [''-f'', ''em.edr'', ''-o'', ''minimization_energy.xvg''])],
         spawned := [[''gmx'', ''grompp'', ''-f'', ''/work/em.mdp'', ''-c'', ''solvated.gro'',
                      ''-p'', ''topol.top'', ''-o'', ''em.tpr''],
                     [''gmx'', ''mdrun'', ''-v'', ''-deffnm'', ''em'']],
         ctx_log := [(''gmx grompp -f /work/em.mdp -c solvated.gro -p topol.top -o em.tpr'',
                      0, [], []),
                     (''gmx mdrun -v -deffnm em'', 0, [], [])]\<rparr>)"
  by (simp add: run_minimization_def run_phase_def phase_body_def precondition_def launch_def
        conclude_def validate_energy_fails run_gromacs_command_def full_cmd_def Let_def
        minimization_phase_def env_ok_def ctx_gmx_def blank_world_def new_status_def
        monitor_done_now poll_done_def path_join_def em_outputs_def)

text \<open>
  C1, as the specification states it, fails for the minimization step:
  \<^verbatim>\<open>run_minimization\<close> has no predecessor check. On a new workflow, where
  \<^verbatim>\<open>system_preparation\<close> is not in \<^verbatim>\<open>completed_steps\<close>, it enters the gateway three times
  and creates two processes; the error it records is that of the energy check.
\<close>

theorem minimization_unguarded_counterexample:
  "SYSTEM_PREPARATION \<notin> set (completed_steps (status blank_world)) \<and>
   run_minimization env_ok ctx_gmx blank_world \<noteq> None \<and>
   gw_calls (snd (the (run_minimization env_ok ctx_gmx blank_world))) =
     [(''grompp'', [''-f'', ''/work/em.mdp'', ''-c'', ''solvated.gro'',
                    ''-p'', ''topol.top'', ''-o'', ''em.tpr'']),
      (''mdrun'', [''-v'', ''-deffnm'', ''em'']),
      (''energy'', [''-f'', ''em.edr'', ''-o'', ''minimization_energy.xvg''])] \<and>
   spawned (snd (the (run_minimization env_ok ctx_gmx blank_world))) =
     [[''gmx'', ''grompp'', ''-f'', ''/work/em.mdp'', ''-c'', ''solvated.gro'',
       ''-p'', ''topol.top'', ''-o'', ''em.tpr''],
      [''gmx'', ''mdrun'', ''-v'', ''-deffnm'', ''em'']] \<and>
   fst (the (run_minimization env_ok ctx_gmx blank_world))
     = Inl (SimulationError (''minimization'' @ txt_energy_failed))"
proof -
  have "SYSTEM_PREPARATION \<notin> set (completed_steps (status blank_world))"
    by (simp add: blank_world_def new_status_def)
  then show ?thesis by (simp add: run_min_ok)
qed

subsection \<open>Commit, persistence and checkpoints\<close>

lemma run_op_is_run_phase:
  assumes "(op, P) \<in> {(run_minimization, MINIMIZATION),
                      (run_nvt_equilibration, NVT_EQUILIBRATION),
                      (run_npt_equilibration, NPT_EQUILIBRATION),
                      (run_production, PRODUCTION)}"
  shows "\<exists>ph. ph_step ph = P \<and> op = (\<lambda>e. run_phase e ph)"
proof -
  have "ph_step minimization_phase = MINIMIZATION" "ph_step nvt_phase = NVT_EQUILIBRATION"
    "ph_step npt_phase = NPT_EQUILIBRATION" "ph_step production_phase = PRODUCTION"
    by (simp_all add: minimization_phase_def nvt_phase_def npt_phase_def production_phase_def)
  moreover have "run_minimization = (\<lambda>e. run_phase e minimization_phase)"
    "run_nvt_equilibration = (\<lambda>e. run_phase e nvt_phase)"
    "run_npt_equilibration = (\<lambda>e. run_phase e npt_phase)"
    "run_production = (\<lambda>e. run_phase e production_phase)"
    by (simp_all add: fun_eq_iff run_minimization_def run_nvt_equilibration_def
          run_npt_equilibration_def run_production_def)
  ultimately show ?thesis using assms by auto
qed

text \<open>
  C3, as the code has it. No run operation writes a status record through the workflow
  manager and none calls \<^verbatim>\<open>backup_checkpoint\<close>: whenever one of the four run
  operations returns, with a result or with an exception, the registry and the
  checkpoint store are what they were before the call. (Processes of the engine are
  taken to write into the working directory only.)
\<close>

theorem run_leaves_store_and_registry:
  assumes "(op, P) \<in> {(run_minimization, MINIMIZATION),
                      (run_nvt_equilibration, NVT_EQUILIBRATION),
                      (run_npt_equilibration, NPT_EQUILIBRATION),
                      (run_production, PRODUCTION)}"
      and "op e ctx w = Some (r, w')"
  shows "checkpoints w' = checkpoints w \<and> registry w' = registry w"
proof -
  from run_op_is_run_phase[OF assms(1)] obtain ph
    where "op = (\<lambda>e. run_phase e ph)" by blast
  with assms(2) have "run_phase e ph ctx w = Some (r, w')" by simp
  from run_phase_cases[OF this] show ?thesis by simp
qed

theorem run_leaves_store_and_registry_witness:
  "run_minimization env_ok ctx_gmx blank_world \<noteq> None \<and>
   checkpoints (snd (the (run_minimization env_ok ctx_gmx blank_world)))
     = checkpoints blank_world \<and>
   registry (snd (the (run_minimization env_ok ctx_gmx blank_world))) = registry blank_world"
proof -
  have m: "(run_minimization, MINIMIZATION) \<in> {(run_minimization, MINIMIZATION),
                      (run_nvt_equilibration, NVT_EQUILIBRATION),
                      (run_npt_equilibration, NPT_EQUILIBRATION),
                      (run_production, PRODUCTION)}" by simp
  from run_leaves_store_and_registry[OF m run_min_ok] show ?thesis
    by (simp add: run_min_ok)
qed

text \<open>
  C3, as the specification states it, fails. On a new workflow, with an engine whose
  \<^verbatim>\<open>grompp\<close> and \<^verbatim>\<open>mdrun\<close> exit with code 0, a log that ends in the completion marker
  and all three output files present and non-empty, \<^verbatim>\<open>run_minimization\<close> returns with
  the step not appended to \<^verbatim>\<open>completed_steps\<close>, nothing written to the registry and no
  checkpoint directory for the step.
\<close>

theorem no_commit_counterexample:
  "poll_done (tail env_ok 0 ''em.log'') \<and>
   run_minimization env_ok ctx_gmx blank_world \<noteq> None \<and>
   ctx_log (snd (the (run_minimization env_ok ctx_gmx blank_world))) =
     [(''gmx grompp -f /work/em.mdp -c solvated.gro -p topol.top -o em.tpr'', 0, [], []),
      (''gmx mdrun -v -deffnm em'', 0, [], [])] \<and>
   check_output_files (files (snd (the (run_minimization env_ok ctx_gmx blank_world))))
     [''em.gro'', ''em.edr'', ''em.log''] \<and>
   completed_steps (status (snd (the (run_minimization env_ok ctx_gmx blank_world)))) = [] \<and>
   registry (snd (the (run_minimization env_ok ctx_gmx blank_world))) = [] \<and>
   checkpoints (snd (the (run_minimization env_ok ctx_gmx blank_world))) ''minimization''
     = None"
proof -
  have "poll_done (tail env_ok 0 ''em.log'')"
    by (simp add: env_ok_def poll_done_def)
  moreover have "registry blank_world = []" "checkpoints blank_world ''minimization'' = None"
    by (simp_all add: blank_world_def)
  ultimately show ?thesis
    by (simp add: run_min_ok em_outputs_def)
qed

subsection \<open>The status after an attempt\<close>

text \<open>
  C4, as the code has it. After an attempt at step \<open>P\<close> that returns, \<open>P\<close> is in
  \<^verbatim>\<open>errors\<close> or in \<^verbatim>\<open>completed_steps\<close>; if it was in neither before, it is not in both
  after. The entries of every other step are as before, and the attempt removes
  nothing: no key leaves \<^verbatim>\<open>errors\<close> and no step leaves \<^verbatim>\<open>completed_steps\<close>.
\<close>

theorem run_status_after_attempt:
  assumes "(op, P) \<in> {(run_minimization, MINIMIZATION),
                      (run_nvt_equilibration, NVT_EQUILIBRATION),
                      (run_npt_equilibration, NPT_EQUILIBRATION),
                      (run_production, PRODUCTION)}"
      and "op e ctx w = Some (r, w')"
  shows "(P \<in> dom (errors (status w')) \<or> P \<in> set (completed_steps (status w'))) \<and>
         (P \<notin> dom (errors (status w)) \<and> P \<notin> set (completed_steps (status w)) \<longrightarrow>
            \<not> (P \<in> dom (errors (status w')) \<and> P \<in> set (completed_steps (status w')))) \<and>
         (\<forall>Q. Q \<noteq> P \<longrightarrow> errors (status w') Q = errors (status w) Q \<and>
               (Q \<in> set (completed_steps (status w')) \<longleftrightarrow>
                Q \<in> set (completed_steps (status w)))) \<and>
         dom (errors (status w)) \<subseteq> dom (errors (status w')) \<and>
         set (completed_steps (status w)) \<subseteq> set (completed_steps (status w'))"
proof -
  from run_op_is_run_phase[OF assms(1)] obtain ph
    where ph: "ph_step ph = P" "op = (\<lambda>e. run_phase e ph)" by blast
  with assms(2) have "run_phase e ph ctx w = Some (r, w')" by simp
  from run_phase_cases[OF this] ph(1) obtain ex where
    c: "completed_steps (status w') = completed_steps (status w)"
       "errors (status w') = (errors (status w))(P \<mapsto> str_of ex)"
    by auto
  then show ?thesis by auto
qed

theorem run_status_after_attempt_witness:
  "run_minimization env_ok ctx_gmx blank_world \<noteq> None \<and>
   MINIMIZATION \<notin> dom (errors (status blank_world)) \<and>
   MINIMIZATION \<notin> set (completed_steps (status blank_world)) \<and>
   MINIMIZATION \<in> dom (errors (status (snd (the (run_minimization env_ok ctx_gmx blank_world))))) \<and>
   MINIMIZATION \<notin> set (completed_steps
                          (status (snd (the (run_minimization env_ok ctx_gmx blank_world)))))"
proof -
  have m: "(run_minimization, MINIMIZATION) \<in> {(run_minimization, MINIMIZATION),
                      (run_nvt_equilibration, NVT_EQUILIBRATION),
                      (run_npt_equilibration, NPT_EQUILIBRATION),
                      (run_production, PRODUCTION)}" by simp
  have b: "MINIMIZATION \<notin> dom (errors (status blank_world))"
    "MINIMIZATION \<notin> set (completed_steps (status blank_world))"
    by (simp_all add: blank_world_def new_status_def)
  from run_status_after_attempt[OF m run_min_ok] b show ?thesis
    by (simp add: run_min_ok)
qed

text \<open>
  C4, as the specification states it, fails: the handler writes \<^verbatim>\<open>errors[step]\<close> and
  leaves \<^verbatim>\<open>completed_steps\<close> alone. From a status in which minimization is completed
  and has no error, a run of \<^verbatim>\<open>run_minimization\<close> whose \<^verbatim>\<open>grompp\<close> cannot be started
  leaves the step both in \<^verbatim>\<open>completed_steps\<close> and in \<^verbatim>\<open>errors\<close>.
\<close>

theorem rerun_in_both_counterexample:
  "MINIMIZATION \<in> set (completed_steps (status w_done_min)) \<and>
   errors (status w_done_min) MINIMIZATION = None \<and>
   run_minimization env_nobin ctx_gmx w_done_min \<noteq> None \<and>
   MINIMIZATION \<in> set (completed_steps
                         (status (snd (the (run_minimization env_nobin ctx_gmx w_done_min))))) \<and>
   errors (status (snd (the (run_minimization env_nobin ctx_gmx w_done_min)))) MINIMIZATION
     = Some (txt_tpr_failed @ ''No such file or directory'')"
  by (simp add: run_minimization_def run_phase_def phase_body_def precondition_def launch_def
        run_gromacs_command_def full_cmd_def Let_def minimization_phase_def env_nobin_def
        ctx_gmx_def w_done_min_def blank_world_def new_status_def path_join_def)

subsection \<open>Fatal marker and output check\<close>

lemma run_op_phase:
  assumes "(op, ph) \<in> {(run_minimization, minimization_phase),
                       (run_nvt_equilibration, nvt_phase),
                       (run_npt_equilibration, npt_phase),
                       (run_production, production_phase)}"
  shows "op e ctx w = run_phase e ph ctx w"
  using assms
  by (auto simp: run_minimization_def run_nvt_equilibration_def
        run_npt_equilibration_def run_production_def)

lemma precondition_current_step:
  "precondition ph (w\<lparr>status := (status w)\<lparr>current_step := c\<rparr>\<rparr>) = precondition ph w"
  by (simp add: precondition_def split: option.splits)

lemma check_output_files_iff:
  "check_output_files fs req \<longleftrightarrow> (\<forall>f \<in> set req. \<exists>c. fs f = Some c \<and> c \<noteq> [])"
  by (induction req) (auto split: option.splits)

lemma run_phase_monitor_failed:
  assumes "precondition ph w = None"
      and "launch e ph ctx (w\<lparr>status := (status w)\<lparr>current_step := Some (ph_step ph)\<rparr>\<rparr>)
             = (Inr res, w1)"
      and "monitor_progress e (ph_step ph) (ph_log ph) 0 = Some (Inl ex)"
  shows "run_phase e ph ctx w =
           Some (Inl ex, w1\<lparr>status := (status w1)
                   \<lparr>errors := (errors (status w1))(ph_step ph \<mapsto> str_of ex)\<rparr>\<rparr>)"
  using assms by (simp add: run_phase_def phase_body_def precondition_current_step)

lemma run_phase_output_failed:
  assumes "precondition ph w = None"
      and "launch e ph ctx (w\<lparr>status := (status w)\<lparr>current_step := Some (ph_step ph)\<rparr>\<rparr>)
             = (Inr res, w1)"
      and "monitor_progress e (ph_step ph) (ph_log ph) 0 = Some (Inr ())"
      and "\<not> check_output_files (files w1) (ph_required ph)"
  shows "run_phase e ph ctx w =
           Some (Inl (SimulationError (fmt_step e (ph_step ph) @ txt_output_failed)),
                 w1\<lparr>status := (status w1)
                   \<lparr>errors := (errors (status w1))
                      (ph_step ph \<mapsto> fmt_step e (ph_step ph) @ txt_output_failed)\<rparr>\<rparr>)"
  using assms
  by (simp add: run_phase_def phase_body_def precondition_current_step conclude_def)

lemma run_phase_energy_failed:
  assumes "precondition ph w = None"
      and "launch e ph ctx (w\<lparr>status := (status w)\<lparr>current_step := Some (ph_step ph)\<rparr>\<rparr>)
             = (Inr res, w1)"
      and "monitor_progress e (ph_step ph) (ph_log ph) 0 = Some (Inr ())"
      and "check_output_files (files w1) (ph_required ph)"
  shows "\<exists>w'. run_phase e ph ctx w =
           Some (Inl (SimulationError (fmt_step e (ph_step ph) @ txt_energy_failed)), w') \<and>
           errors (status w') (ph_step ph)
             = Some (fmt_step e (ph_step ph) @ txt_energy_failed)"
  using assms
  by (simp add: run_phase_def phase_body_def precondition_current_step conclude_def
        validate_energy_fails)

text \<open>
  C6, as the code has it. Let a run of step \<open>P\<close> reach the monitor (the predecessor
  check passes and \<^verbatim>\<open>grompp\<close> returns code 0), and let the first poll that is not
  pending show a last line that holds the fatal marker and not the completion marker.
  Then the monitor raises its \<^verbatim>\<open>SimulationError\<close>, the run operation ends with that
  exception, \<^verbatim>\<open>errors[P]\<close> is its message, which is not empty, and
  \<^verbatim>\<open>completed_steps\<close> is as before.
\<close>

theorem fatal_marker_fails_phase:
  assumes "(op, ph) \<in> {(run_minimization, minimization_phase),
                       (run_nvt_equilibration, nvt_phase),
                       (run_npt_equilibration, npt_phase),
                       (run_production, production_phase)}"
      and "precondition ph w = None"
      and "launch e ph ctx (w\<lparr>status := (status w)\<lparr>current_step := Some (ph_step ph)\<rparr>\<rparr>)
             = (Inr res, w1)"
      and "\<forall>k<n. poll_pending (tail e k (ph_log ph))"
      and "poll_fatal (tail e n (ph_log ph))"
      and "\<not> poll_done (tail e n (ph_log ph))"
  shows "monitor_progress e (ph_step ph) (ph_log ph) 0
           = Some (Inl (SimulationError (fmt_step e (ph_step ph) @ txt_sim_failed))) \<and>
         (\<exists>w'. op e ctx w
                  = Some (Inl (SimulationError (fmt_step e (ph_step ph) @ txt_sim_failed)), w') \<and>
               errors (status w') (ph_step ph)
                  = Some (fmt_step e (ph_step ph) @ txt_sim_failed) \<and>
               completed_steps (status w') = completed_steps (status w)) \<and>
         fmt_step e (ph_step ph) @ txt_sim_failed \<noteq> []"
proof -
  from assms(4) have "\<forall>k<n. poll_pending (tail e (0 + k) (ph_log ph))" by simp
  from monitor_skips_pending[OF this] monitor_fatal_now[OF assms(5,6)]
  have m: "monitor_progress e (ph_step ph) (ph_log ph) 0
             = Some (Inl (SimulationError (fmt_step e (ph_step ph) @ txt_sim_failed)))"
    by simp
  from launch_frame[OF assms(3)]
  have st: "completed_steps (status w1) = completed_steps (status w)" by simp
  from run_phase_monitor_failed[OF assms(2,3) m] run_op_phase[OF assms(1), of e ctx w] st
  have "\<exists>w'. op e ctx w
                  = Some (Inl (SimulationError (fmt_step e (ph_step ph) @ txt_sim_failed)), w') \<and>
               errors (status w') (ph_step ph)
                  = Some (fmt_step e (ph_step ph) @ txt_sim_failed) \<and>
               completed_steps (status w') = completed_steps (status w)"
    by simp
  moreover have "fmt_step e (ph_step ph) @ txt_sim_failed \<noteq> []"
    by (simp add: txt_sim_failed_def)
  ultimately show ?thesis using m by blast
qed

theorem fatal_marker_fails_phase_witness:
  "poll_fatal (tail env_fatal 0 ''em.log'') \<and>
   run_minimization env_fatal ctx_gmx blank_world \<noteq> None \<and>
   fst (the (run_minimization env_fatal ctx_gmx blank_world))
     = Inl (SimulationError (''minimization'' @ txt_sim_failed)) \<and>
   errors (status (snd (the (run_minimization env_fatal ctx_gmx blank_world)))) MINIMIZATION
     = Some (''minimization'' @ txt_sim_failed) \<and>
   completed_steps (status (snd (the (run_minimization env_fatal ctx_gmx blank_world)))) = []"
proof -
  have m: "(run_minimization, minimization_phase) \<in>
      {(run_minimization, minimization_phase), (run_nvt_equilibration, nvt_phase),
       (run_npt_equilibration, npt_phase), (run_production, production_phase)}" by simp
  have p: "precondition minimization_phase blank_world = None"
    by (simp add: precondition_def minimization_phase_def)
  obtain res w1 where l: "launch env_fatal minimization_phase ctx_gmx
      (blank_world\<lparr>status := (status blank_world)
         \<lparr>current_step := Some (ph_step minimization_phase)\<rparr>\<rparr>) = (Inr res, w1)"
    by (simp add: launch_def run_gromacs_command_def full_cmd_def Let_def
          minimization_phase_def env_fatal_def env_ok_def ctx_gmx_def)
  have a: "\<forall>k<0. poll_pending (tail env_fatal k (ph_log minimization_phase))" by simp
  have f: "poll_fatal (tail env_fatal 0 (ph_log minimization_phase))"
    by (simp add: env_fatal_def env_ok_def poll_fatal_def)
  have d: "\<not> poll_done (tail env_fatal 0 (ph_log minimization_phase))"
    by (simp add: env_fatal_def env_ok_def poll_done_def)
  have s: "ph_step minimization_phase = MINIMIZATION" "ph_log minimization_phase = ''em.log''"
    "fmt_step env_fatal MINIMIZATION = ''minimization''"
    "completed_steps (status blank_world) = []"
    by (simp_all add: minimization_phase_def env_fatal_def env_ok_def blank_world_def
          new_status_def)
  from fatal_marker_fails_phase[OF m p l a f d] f s show ?thesis
    by auto
qed

text \<open>
  C6, as the specification states it, fails on a last line that holds both markers:
  the completion marker is tested first, so the monitor returns normally and signals no
  failure. (The attempt still ends with an error, that of the energy check.)
\<close>

theorem both_markers_counterexample:
  "poll_fatal (tail env_both 0 ''em.log'') \<and>
   monitor_progress env_both MINIMIZATION ''em.log'' 0 = Some (Inr ()) \<and>
   run_minimization env_both ctx_gmx blank_world \<noteq> None \<and>
   errors (status (snd (the (run_minimization env_both ctx_gmx blank_world)))) MINIMIZATION
     = Some (''minimization'' @ txt_energy_failed)"
proof -
  have d: "poll_done (tail env_both 0 ''em.log'')"
    by (simp add: env_both_def env_ok_def poll_done_def)
  have f: "poll_fatal (tail env_both 0 ''em.log'')"
    by (simp add: env_both_def env_ok_def poll_fatal_def)
  have m: "monitor_progress env_both MINIMIZATION ''em.log'' 0 = Some (Inr ())"
    by (rule monitor_done_now[OF d])
  then have m': "monitor_progress env_both (ph_step minimization_phase)
                   (ph_log minimization_phase) 0 = Some (Inr ())"
    by (simp add: minimization_phase_def)
  have p: "precondition minimization_phase blank_world = None"
    by (simp add: precondition_def minimization_phase_def)
  define w1 where "w1 = snd (launch env_both minimization_phase ctx_gmx
      (blank_world\<lparr>status := (status blank_world)
         \<lparr>current_step := Some (ph_step minimization_phase)\<rparr>\<rparr>))"
  obtain res where l: "launch env_both minimization_phase ctx_gmx
      (blank_world\<lparr>status := (status blank_world)
         \<lparr>current_step := Some (ph_step minimization_phase)\<rparr>\<rparr>) = (Inr res, w1)"
    by (simp add: w1_def launch_def run_gromacs_command_def full_cmd_def Let_def
          minimization_phase_def env_both_def env_ok_def ctx_gmx_def)
  have c: "check_output_files (files w1) (ph_required minimization_phase)"
    by (simp add: w1_def launch_def run_gromacs_command_def full_cmd_def Let_def
          minimization_phase_def env_both_def env_ok_def ctx_gmx_def em_outputs_def)
  have s: "ph_step minimization_phase = MINIMIZATION"
    "fmt_step env_both MINIMIZATION = ''minimization''"
    by (simp_all add: minimization_phase_def env_both_def env_ok_def)
  from run_phase_energy_failed[OF p l m' c] s f m show ?thesis
    by (auto simp: run_minimization_def)
qed

text \<open>
  C7. Let a run of step \<open>P\<close> reach the monitor (so \<^verbatim>\<open>grompp\<close> returned code 0) and let
  the monitor see the completion marker. If a required output file is then absent from
  the working directory or empty, the run operation raises the \<^verbatim>\<open>SimulationError\<close> of
  the output check, whose message is recorded under \<open>P\<close>; \<open>P\<close> is not appended to
  \<^verbatim>\<open>completed_steps\<close> and the checkpoint store is unchanged. And
  \<^verbatim>\<open>_check_output_files\<close> returns \<^verbatim>\<open>True\<close> exactly when every listed file exists and is
  not empty.
\<close>

theorem missing_output_fails_phase:
  assumes "(op, ph) \<in> {(run_minimization, minimization_phase),
                       (run_nvt_equilibration, nvt_phase),
                       (run_npt_equilibration, npt_phase),
                       (run_production, production_phase)}"
      and "precondition ph w = None"
      and "launch e ph ctx (w\<lparr>status := (status w)\<lparr>current_step := Some (ph_step ph)\<rparr>\<rparr>)
             = (Inr res, w1)"
      and "\<forall>k<n. poll_pending (tail e k (ph_log ph))"
      and "poll_done (tail e n (ph_log ph))"
      and "\<exists>f \<in> set (ph_required ph). files w1 f = None \<or> files w1 f = Some []"
  shows "(\<exists>w'. op e ctx w
                  = Some (Inl (SimulationError (fmt_step e (ph_step ph) @ txt_output_failed)),
                          w') \<and>
               errors (status w') (ph_step ph)
                  = Some (fmt_step e (ph_step ph) @ txt_output_failed) \<and>
               completed_steps (status w') = completed_steps (status w) \<and>
               checkpoints w' = checkpoints w) \<and>
         (\<forall>fs req. check_output_files fs req \<longleftrightarrow>
                     (\<forall>f \<in> set req. \<exists>c. fs f = Some c \<and> c \<noteq> []))"
proof -
  from assms(4) have "\<forall>k<n. poll_pending (tail e (0 + k) (ph_log ph))" by simp
  from monitor_skips_pending[OF this] monitor_done_now[OF assms(5)]
  have m: "monitor_progress e (ph_step ph) (ph_log ph) 0 = Some (Inr ())"
    by simp
  from assms(6) obtain f where f: "f \<in> set (ph_required ph)"
    "files w1 f = None \<or> files w1 f = Some []" by blast
  then have "\<not> (\<exists>c. files w1 f = Some c \<and> c \<noteq> [])" by auto
  with f(1) have c: "\<not> check_output_files (files w1) (ph_required ph)"
    unfolding check_output_files_iff by blast
  from launch_frame[OF assms(3)]
  have st: "completed_steps (status w1) = completed_steps (status w)"
    "checkpoints w1 = checkpoints w" by simp_all
  from run_phase_output_failed[OF assms(2,3) m c] run_op_phase[OF assms(1), of e ctx w] st
  have "\<exists>w'. op e ctx w
                  = Some (Inl (SimulationError (fmt_step e (ph_step ph) @ txt_output_failed)),
                          w') \<and>
               errors (status w') (ph_step ph)
                  = Some (fmt_step e (ph_step ph) @ txt_output_failed) \<and>
               completed_steps (status w') = completed_steps (status w) \<and>
               checkpoints w' = checkpoints w"
    by simp
  then show ?thesis using check_output_files_iff by blast
qed

theorem missing_output_fails_phase_witness:
  "poll_done (tail env_noout 0 ''em.log'') \<and>
   run_minimization env_noout ctx_gmx blank_world \<noteq> None \<and>
   fst (the (run_minimization env_noout ctx_gmx blank_world))
     = Inl (SimulationError (''minimization'' @ txt_output_failed)) \<and>
   completed_steps (status (snd (the (run_minimization env_noout ctx_gmx blank_world)))) = [] \<and>
   checkpoints (snd (the (run_minimization env_noout ctx_gmx blank_world))) ''minimization''
     = None \<and>
   check_output_files [''em.gro'' \<mapsto> ''G''] [''em.gro''] \<and>
   \<not> check_output_files [''em.gro'' \<mapsto> []] [''em.gro'']"
proof -
  have m: "(run_minimization, minimization_phase) \<in>
      {(run_minimization, minimization_phase), (run_nvt_equilibration, nvt_phase),
       (run_npt_equilibration, npt_phase), (run_production, production_phase)}" by simp
  have p: "precondition minimization_phase blank_world = None"
    by (simp add: precondition_def minimization_phase_def)
  define w1 where "w1 = snd (launch env_noout minimization_phase ctx_gmx
      (blank_world\<lparr>status := (status blank_world)
         \<lparr>current_step := Some (ph_step minimization_phase)\<rparr>\<rparr>))"
  obtain res where l: "launch env_noout minimization_phase ctx_gmx
      (blank_world\<lparr>status := (status blank_world)
         \<lparr>current_step := Some (ph_step minimization_phase)\<rparr>\<rparr>) = (Inr res, w1)"
    by (simp add: w1_def launch_def run_gromacs_command_def full_cmd_def Let_def
          minimization_phase_def env_noout_def env_ok_def ctx_gmx_def)
  have fw: "files w1 ''em.gro'' = None"
    by (simp add: w1_def launch_def run_gromacs_command_def full_cmd_def Let_def
          minimization_phase_def env_noout_def env_ok_def ctx_gmx_def blank_world_def)
  have a: "\<forall>k<0. poll_pending (tail env_noout k (ph_log minimization_phase))" by simp
  have d: "poll_done (tail env_noout 0 (ph_log minimization_phase))"
    by (simp add: env_noout_def env_ok_def poll_done_def)
  have x: "\<exists>f \<in> set (ph_required minimization_phase). files w1 f = None \<or> files w1 f = Some []"
    using fw by (simp add: minimization_phase_def)
  have s: "ph_step minimization_phase = MINIMIZATION" "ph_log minimization_phase = ''em.log''"
    "fmt_step env_noout MINIMIZATION = ''minimization''"
    "completed_steps (status blank_world) = []"
    "checkpoints blank_world ''minimization'' = None"
    by (simp_all add: minimization_phase_def env_noout_def env_ok_def blank_world_def
          new_status_def)
  from missing_output_fails_phase[OF m p l a d x] d s show ?thesis
    by auto
qed

end
